theory Spec2Isabelle
  imports Main "HOL-Library.Finite_Map" "HOL-Library.Sublist"
begin

text \<open>
  The admission-and-mixing pipeline of the note mixer relay (\<^verbatim>\<open>main.go\<close>): the
  two admission checks and their place in the chain, the mixing of an accepted
  event into a new event signed by the relay, the save followed by the local
  broadcast and the rebroadcast to the peers, the HTTP submission handler, and
  the loading of the configuration. The clock, the store, the peers and the
  cryptographic primitives are parameters; every call to the clock, the store,
  the local subscribers and the peers is recorded in a trace.
\<close>

section \<open>Data model\<close>

text \<open>
  \<^verbatim>\<open>nostr.Event\<close> as the relay uses it. \<^verbatim>\<open>Kind\<close> is a Go \<^verbatim>\<open>int\<close> and
  \<^verbatim>\<open>CreatedAt\<close> a \<^verbatim>\<open>nostr.Timestamp\<close> (an \<^verbatim>\<open>int64\<close>); the relay only
  copies and compares them, so both are \<open>int\<close>. A struct literal that leaves a
  string field out gives that field the empty string.
\<close>

record event =
  ID :: string
  PubKey :: string
  CreatedAt :: int
  Kind :: int
  Tags :: "string list list"
  Content :: string
  Sig :: string

text \<open>
  \<^verbatim>\<open>Config\<close>. The Go map \<^verbatim>\<open>map[string]bool\<close> is a finite map: \<^verbatim>\<open>len(m) == 0\<close>
  is \<open>fmdom m = {||}\<close>, and \<^verbatim>\<open>m[k]\<close> is \<^verbatim>\<open>false\<close> for a key that is absent.
\<close>

record config =
  RelayName :: string
  RelayPubkey :: string
  RelayPrivateKey :: string
  RelayIcon :: string
  RelayDescription :: string
  AllowedKinds :: "int list"
  DBPath :: string
  Port :: string
  WhitelistedPubkeys :: "(string, bool) fmap"
  RebroadcastRelays :: "string list"

definition index_bool :: "(string, bool) fmap \<Rightarrow> string \<Rightarrow> bool" where
  "index_bool m k = (case fmlookup m k of Some b \<Rightarrow> b | None \<Rightarrow> False)"

section \<open>Formatting\<close>

text \<open>The verb \<^verbatim>\<open>%d\<close> of \<^verbatim>\<open>fmt.Sprintf\<close> on an \<^verbatim>\<open>int\<close>: decimal, a minus sign
  for a negative number, no padding.\<close>

definition digit_char :: "nat \<Rightarrow> char" where
  "digit_char d = ''0123456789'' ! d"

fun fmt_nat :: "nat \<Rightarrow> string" where
  "fmt_nat n = (if n < 10 then [digit_char n] else fmt_nat (n div 10) @ [digit_char (n mod 10)])"

declare fmt_nat.simps [simp del]

definition fmt_d :: "int \<Rightarrow> string" where
  "fmt_d i = (if i < 0 then CHR ''-'' # fmt_nat (nat (- i)) else fmt_nat (nat i))"

section \<open>Admission checks\<close>

text \<open>
  \<^verbatim>\<open>createRejectUnsupportedKinds\<close>: the returned closure walks the allowed kinds and
  accepts at the first one equal to the event's kind.
\<close>

fun kinds_loop :: "int list \<Rightarrow> event \<Rightarrow> bool \<times> string" where
  "kinds_loop [] ev = (True, ''event kind '' @ fmt_d (Kind ev) @ '' is not supported'')"
| "kinds_loop (kind # allowedKinds) ev =
     (if Kind ev = kind then (False, '''') else kinds_loop allowedKinds ev)"

definition createRejectUnsupportedKinds :: "int list \<Rightarrow> event \<Rightarrow> bool \<times> string" where
  "createRejectUnsupportedKinds allowedKinds ev = kinds_loop allowedKinds ev"

text \<open>\<^verbatim>\<open>createRejectNonWhitelistedPubkeys\<close>.\<close>

definition createRejectNonWhitelistedPubkeys :: "(string, bool) fmap \<Rightarrow> event \<Rightarrow> bool \<times> string" where
  "createRejectNonWhitelistedPubkeys whitelist ev =
     (if fmdom whitelist = {||} then (False, '''')
      else if \<not> index_bool whitelist (PubKey ev) then (True, ''pubkey not whitelisted'')
      else (False, ''''))"

text \<open>A check of the chain: an event to the pair (reject, reason).\<close>

type_synonym policy = "event \<Rightarrow> bool \<times> string"

text \<open>Modelled from the spec: the loop that runs the \<^verbatim>\<open>relay.RejectEvent\<close> list
  belongs to the relay framework and is not part of the sources. Section 4.1 of
  the specification: the checks are evaluated in a fixed order, and the chain
  short-circuits on the first check that rejects, returning that check's reason.\<close>

fun admit :: "policy list \<Rightarrow> event \<Rightarrow> bool \<times> string" where
  "admit [] ev = (False, '''')"
| "admit (check # checks) ev =
     (case check ev of
        (True, reason) \<Rightarrow> (True, reason)
      | (False, _) \<Rightarrow> admit checks ev)"

text \<open>
  The list that \<^verbatim>\<open>setupRelayHandlers\<close> appends to \<^verbatim>\<open>relay.RejectEvent\<close>. The last
  two entries, \<^verbatim>\<open>policies.RejectEventsWithBase64Media\<close> and the closure returned by
  \<^verbatim>\<open>policies.EventIPRateLimiter(5, time.Minute*1, 30)\<close>, come from the framework and
  are parameters.
\<close>

definition RejectEvent :: "config \<Rightarrow> policy \<Rightarrow> policy \<Rightarrow> policy list" where
  "RejectEvent config RejectEventsWithBase64Media EventIPRateLimiter =
     [createRejectNonWhitelistedPubkeys (WhitelistedPubkeys config),
      createRejectUnsupportedKinds (AllowedKinds config),
      RejectEventsWithBase64Media,
      EventIPRateLimiter]"

section \<open>The outside world\<close>

text \<open>
  Every call that leaves the process is recorded, with its result, in a trace.
  \<^verbatim>\<open>go rebroadcastEvent(e, relays)\<close> is recorded as the start of a goroutine with
  its arguments; what the goroutine then does is \<open>rebroadcastEvent\<close> below, run
  on its own. Log lines are not recorded.
\<close>

datatype io =
    TimeNow int
  | SaveEvent event "string option"
  | BroadcastEvent event
  | GoRebroadcast event "string list"
  | RelayConnect string "string option"
  | Publish string event "string option"
  | Close string

text \<open>
  The collaborators are parameters. The clock, the store and the peers answer as
  a function of everything that has happened so far, so two calls with the same
  arguments may get different answers; \<open>None\<close> is a \<^verbatim>\<open>nil\<close> error, \<open>Some msg\<close> an
  error whose text is \<open>msg\<close>. The three cryptographic primitives are pure.
\<close>

type_synonym canonical = "string \<times> int \<times> int \<times> string list list \<times> string"

record externals =
  time_Now :: "io list \<Rightarrow> int"
  derive_pubkey :: "string \<Rightarrow> string + string"
  canonical_id :: "canonical \<Rightarrow> string"
  signature :: "string \<Rightarrow> canonical \<Rightarrow> string"
  db_SaveEvent :: "io list \<Rightarrow> event \<Rightarrow> string option"
  nostr_RelayConnect :: "io list \<Rightarrow> string \<Rightarrow> string option"
  relay_Publish :: "io list \<Rightarrow> string \<Rightarrow> event \<Rightarrow> string option"

text \<open>The fields an id and a signature are computed from (section 3 of the
  specification): public key, creation time, kind, tags, content.\<close>

definition canonical_form :: "event \<Rightarrow> canonical" where
  "canonical_form evt = (PubKey evt, CreatedAt evt, Kind evt, Tags evt, Content evt)"

text \<open>Modelled from the spec: \<^verbatim>\<open>(*nostr.Event).Sign\<close> belongs to the protocol
  library and is not part of the sources. Section 4.3 of the specification: it
  derives the public key from the private key, computes the canonical id from
  the fields, produces a signature over the canonical form, and returns a fully
  populated event; it fails only if the private key is malformed
  (\<open>derive_pubkey\<close> returns \<open>Inl\<close>).\<close>

definition Sign :: "externals \<Rightarrow> event \<Rightarrow> string \<Rightarrow> string + event" where
  "Sign X evt secretKey =
     (case derive_pubkey X secretKey of
        Inl err \<Rightarrow> Inl err
      | Inr pk \<Rightarrow>
          (let evt1 = evt\<lparr>PubKey := pk\<rparr>
           in Inr (evt1\<lparr>ID := canonical_id X (canonical_form evt1),
                        Sig := signature X secretKey (canonical_form evt1)\<rparr>)))"

section \<open>Peer rebroadcast\<close>

text \<open>The function literal in the loop body of \<^verbatim>\<open>rebroadcastEvent\<close>: connect, publish,
  and (deferred) close. \<^verbatim>\<open>%v\<close> of an error is its text.\<close>

definition publish_to :: "externals \<Rightarrow> event \<Rightarrow> string \<Rightarrow> io list \<Rightarrow> string option \<times> io list" where
  "publish_to X ev url tr =
     (case nostr_RelayConnect X tr url of
        Some err \<Rightarrow>
          (Some (''failed to connect to relay '' @ url @ '': '' @ err),
           tr @ [RelayConnect url (Some err)])
      | None \<Rightarrow>
          (let tr1 = tr @ [RelayConnect url None]
           in case relay_Publish X tr1 url ev of
                Some err \<Rightarrow>
                  (Some (''failed to publish event to relay '' @ url @ '': '' @ err),
                   tr1 @ [Publish url ev (Some err), Close url])
              | None \<Rightarrow> (None, tr1 @ [Publish url ev None, Close url])))"

text \<open>\<^verbatim>\<open>rebroadcastEvent\<close>: the loop over the peers, with the errors collected so
  far, started with no errors.\<close>

fun rebroadcast_loop ::
  "externals \<Rightarrow> event \<Rightarrow> string list \<Rightarrow> string list \<Rightarrow> io list \<Rightarrow> string list \<times> io list" where
  "rebroadcast_loop X ev [] errors tr = (errors, tr)"
| "rebroadcast_loop X ev (url # relays) errors tr =
     (case publish_to X ev url tr of
        (Some err, tr') \<Rightarrow> rebroadcast_loop X ev relays (errors @ [err]) tr'
      | (None, tr') \<Rightarrow> rebroadcast_loop X ev relays errors tr')"

definition rebroadcastEvent :: "externals \<Rightarrow> event \<Rightarrow> string list \<Rightarrow> io list \<Rightarrow> string list \<times> io list" where
  "rebroadcastEvent X ev relays tr = rebroadcast_loop X ev relays [] tr"

section \<open>Mixing, storing and fan-out\<close>

text \<open>\<^verbatim>\<open>mixAndStoreEvent\<close>. First the struct literal at its head, where \<open>now\<close> is
  \<^verbatim>\<open>time.Now().Unix()\<close>; then the function: sign, save, broadcast to the local
  subscribers, start the rebroadcast goroutine. The result is the returned
  error, if any, and the trace.\<close>

definition mixedEvent :: "int \<Rightarrow> event \<Rightarrow> event" where
  "mixedEvent now ev =
     \<lparr>ID = '''', PubKey = '''', CreatedAt = now, Kind = Kind ev, Tags = Tags ev,
      Content = Content ev, Sig = ''''\<rparr>"

definition mixAndStoreEvent ::
  "externals \<Rightarrow> event \<Rightarrow> string \<Rightarrow> string list \<Rightarrow> io list \<Rightarrow> string option \<times> io list" where
  "mixAndStoreEvent X ev privateKey rebroadcastRelays tr =
     (let now = time_Now X tr;
          tr1 = tr @ [TimeNow now]
      in case Sign X (mixedEvent now ev) privateKey of
           Inl err \<Rightarrow> (Some (''failed to sign mixed event: '' @ err), tr1)
         | Inr mixed \<Rightarrow>
             (case db_SaveEvent X tr1 mixed of
                Some err \<Rightarrow>
                  (Some (''failed to save mixed event: '' @ err), tr1 @ [SaveEvent mixed (Some err)])
              | None \<Rightarrow>
                  (None,
                   tr1 @ [SaveEvent mixed None, BroadcastEvent mixed,
                          GoRebroadcast mixed rebroadcastRelays])))"

section \<open>The HTTP submission handler\<close>

text \<open>
  What the handler reads from the request, and what it writes: the status
  (200 when the handler never sets one), the \<^verbatim>\<open>Content-Type\<close> it sets itself, if
  any, and the body. \<^verbatim>\<open>http.Error\<close> writes the message followed by a newline as
  plain text.
\<close>

record request =
  Method :: string
  FormValue_content :: string

record response =
  StatusCode :: nat
  ContentType :: "string option"
  Body :: string

definition http_Error :: "string \<Rightarrow> nat \<Rightarrow> response" where
  "http_Error msg code =
     \<lparr>StatusCode = code, ContentType = Some ''text/plain; charset=utf-8'',
      Body = msg @ [CHR 0x0A]\<rparr>"

definition write_body :: "string \<Rightarrow> response" where
  "write_body b = \<lparr>StatusCode = 200, ContentType = None, Body = b\<rparr>"

text \<open>The response text built after the blocking rebroadcast.\<close>

definition success_response :: "string list \<Rightarrow> string" where
  \<open>success_response rebroadcastErrors =
     ''<p class="success">Note submitted successfully!</p>'' @
     (if length rebroadcastErrors > 0
      then ''<p class="warning">Rebroadcast issues:</p><ul>'' @
           concat (map (\<lambda>err. ''<li class="warning">'' @ err @ ''</li>'') rebroadcastErrors) @
           ''</ul>''
      else '''')\<close>

text \<open>The event the handler builds from the form value; \<open>now\<close> is
  \<^verbatim>\<open>time.Now().Unix()\<close>.\<close>

definition submitted_event :: "int \<Rightarrow> string \<Rightarrow> event" where
  "submitted_event now content =
     \<lparr>ID = '''', PubKey = '''', CreatedAt = now, Kind = 1, Tags = [],
      Content = content, Sig = ''''\<rparr>"

definition createSubmitNoteHandler ::
  "externals \<Rightarrow> config \<Rightarrow> request \<Rightarrow> io list \<Rightarrow> response \<times> io list" where
  \<open>createSubmitNoteHandler X config r tr =
     (if Method r \<noteq> ''POST'' then (http_Error ''Method not allowed'' 405, tr)
      else if fmdom (WhitelistedPubkeys config) \<noteq> {||} then
        (\<lparr>StatusCode = 403, ContentType = None,
          Body = ''<p class="error">This relay is not open for public submissions</p>''\<rparr>, tr)
      else if FormValue_content r = '''' then
        (write_body ''<p class="error">Content cannot be empty</p>'', tr)
      else
        (let now = time_Now X tr;
             tr1 = tr @ [TimeNow now]
         in case Sign X (submitted_event now (FormValue_content r)) (RelayPrivateKey config) of
              Inl err \<Rightarrow> (write_body ''<p class="error">Failed to sign event</p>'', tr1)
            | Inr event \<Rightarrow>
                (case mixAndStoreEvent X event (RelayPrivateKey config)
                        (RebroadcastRelays config) tr1 of
                   (Some err, tr2) \<Rightarrow>
                     (write_body ''<p class="error">Failed to store event</p>'', tr2)
                 | (None, tr2) \<Rightarrow>
                     (case rebroadcastEvent X event (RebroadcastRelays config) tr2 of
                        (rebroadcastErrors, tr3) \<Rightarrow>
                          (\<lparr>StatusCode = 200, ContentType = Some ''text/html'',
                            Body = success_response rebroadcastErrors\<rparr>, tr3)))))\<close>

section \<open>Loading the configuration\<close>









text \<open>\<^verbatim>\<open>strconv.Atoi\<close> on a 64-bit platform: an optional sign, then at least one
  decimal digit and nothing else; a value outside the \<^verbatim>\<open>int\<close> range is an error.\<close>

definition isDigit :: "char \<Rightarrow> bool" where
  "isDigit c = (c \<in> set ''0123456789'')"

definition digit_value :: "char \<Rightarrow> nat" where
  "digit_value c = length (takeWhile (\<lambda>d. d \<noteq> c) ''0123456789'')"

fun digits_value :: "nat \<Rightarrow> string \<Rightarrow> nat" where
  "digits_value n [] = n"
| "digits_value n (ch # s) = digits_value (n * 10 + digit_value ch) s"






section \<open>Reading a trace\<close>

text \<open>
  What a stretch of trace says about the peers: the addresses a connection was
  attempted to, the addresses whose connection or publication failed, those that
  were published to, and the text \<open>rebroadcastEvent\<close> reports for each failure;
  each in the order of the trace.
\<close>

fun attempted :: "io \<Rightarrow> string list" where
  "attempted (RelayConnect url r) = [url]"
| "attempted _ = []"

fun failed :: "io \<Rightarrow> string list" where
  "failed (RelayConnect url (Some err)) = [url]"
| "failed (Publish url ev (Some err)) = [url]"
| "failed _ = []"

fun succeeded :: "io \<Rightarrow> string list" where
  "succeeded (Publish url ev None) = [url]"
| "succeeded _ = []"

fun failure_text :: "io \<Rightarrow> string list" where
  "failure_text (RelayConnect url (Some err)) =
     [''failed to connect to relay '' @ url @ '': '' @ err]"
| "failure_text (Publish url ev (Some err)) =
     [''failed to publish event to relay '' @ url @ '': '' @ err]"
| "failure_text _ = []"

definition peers_attempted :: "io list \<Rightarrow> string list" where
  "peers_attempted tr = concat (map attempted tr)"

definition peers_failed :: "io list \<Rightarrow> string list" where
  "peers_failed tr = concat (map failed tr)"

definition peers_succeeded :: "io list \<Rightarrow> string list" where
  "peers_succeeded tr = concat (map succeeded tr)"

definition failure_texts :: "io list \<Rightarrow> string list" where
  "failure_texts tr = concat (map failure_text tr)"

text \<open>
  A stretch of trace is answered by the world when every recorded result is
  what the clock, the store or the peer answers at that point of the history.
\<close>

fun answered_by :: "externals \<Rightarrow> io list \<Rightarrow> io list \<Rightarrow> bool" where
  "answered_by X tr [] = True"
| "answered_by X tr (a # new) =
     ((case a of
         TimeNow t \<Rightarrow> t = time_Now X tr
       | SaveEvent e r \<Rightarrow> r = db_SaveEvent X tr e
       | RelayConnect url r \<Rightarrow> r = nostr_RelayConnect X tr url
       | Publish url e r \<Rightarrow> r = relay_Publish X tr url e
       | _ \<Rightarrow> True) \<and>
      answered_by X (tr @ [a]) new)"

text \<open>
  A stretch of trace makes one attempt at each peer of a list, in the order of
  the list, when it is, peer after peer, either a failed connection to that
  peer, or a connection to it followed by the publication of the given event to
  it and the closing of the connection; and nothing else.
\<close>

fun one_attempt_each :: "event \<Rightarrow> string list \<Rightarrow> io list \<Rightarrow> bool" where
  "one_attempt_each ev [] new = (new = [])"
| "one_attempt_each ev (url # relays) (RelayConnect u (Some err) # new) =
     (u = url \<and> one_attempt_each ev relays new)"
| "one_attempt_each ev (url # relays) (RelayConnect u None # Publish u' e r # Close u'' # new) =
     (u = url \<and> u' = url \<and> u'' = url \<and> e = ev \<and> one_attempt_each ev relays new)"
| "one_attempt_each ev (url # relays) new = False"

text \<open>The events a trace entry carries to the store, to the local subscribers
  or to a peer.\<close>

fun events_of :: "io \<Rightarrow> event list" where
  "events_of (SaveEvent e r) = [e]"
| "events_of (BroadcastEvent e) = [e]"
| "events_of (GoRebroadcast e relays) = [e]"
| "events_of (Publish url e r) = [e]"
| "events_of _ = []"

section \<open>Example inputs\<close>

text \<open>
  An inbound event of some author; a world whose clock starts at 100 and
  advances by one with every recorded call, where an id names the public key
  and the creation time, whose store fails for the content \<open>full\<close> only, and
  where only the peer \<open>relayB\<close> can be reached; and the event the relay with the
  private key \<open>k\<close> makes of the inbound event at time \<open>t\<close>.
\<close>

definition inbound :: "string \<Rightarrow> int \<Rightarrow> int \<Rightarrow> event" where
  "inbound pk t k =
     \<lparr>ID = ''id-of-author'', PubKey = pk, CreatedAt = t, Kind = k, Tags = [[''t'', ''nostr'']],
      Content = ''hello'', Sig = ''sig-of-author''\<rparr>"

definition example_world :: externals where
  "example_world =
     \<lparr>time_Now = (\<lambda>tr. 100 + int (length tr)),
      derive_pubkey = (\<lambda>sk. if sk = '''' then Inl ''invalid secret key'' else Inr (''pub-of-'' @ sk)),
      canonical_id = (\<lambda>c. ''id-of-'' @ fst c @ ''-at-'' @ fmt_d (fst (snd c))),
      signature = (\<lambda>sk c. ''sig-by-'' @ sk),
      db_SaveEvent = (\<lambda>tr e. if Content e = ''full'' then Some ''disk full'' else None),
      nostr_RelayConnect = (\<lambda>tr url. if url = ''relayB'' then None else Some ''unreachable''),
      relay_Publish = (\<lambda>tr url e. None)\<rparr>"

definition mixed_hello :: "int \<Rightarrow> event" where
  "mixed_hello t =
     \<lparr>ID = ''id-of-pub-of-k-at-'' @ fmt_d t, PubKey = ''pub-of-k'', CreatedAt = t, Kind = 1,
      Tags = [[''t'', ''nostr'']], Content = ''hello'', Sig = ''sig-by-k''\<rparr>"

text \<open>A configuration with the given allowlist, allowed kinds and peers, and a
  framework policy that never objects.\<close>

definition example_config :: "(string, bool) fmap \<Rightarrow> int list \<Rightarrow> string list \<Rightarrow> config" where
  "example_config whitelist kinds relays =
     \<lparr>RelayName = ''Khatru Mixer Relay'', RelayPubkey = '''', RelayPrivateKey = ''k'',
      RelayIcon = '''', RelayDescription = ''A Nostr relay that mixes and anonymizes events'',
      AllowedKinds = kinds, DBPath = ''./khatru-sqlite.db'', Port = ''3334'',
      WhitelistedPubkeys = whitelist, RebroadcastRelays = relays\<rparr>"

definition no_objection :: policy where
  "no_objection ev = (False, '''')"

text \<open>The note \<open>hello\<close> as the relay with the private key \<open>k\<close> signs it at time
  \<open>t\<close>; the request that submits it; and an environment that sets the private
  key and nothing else.\<close>

definition relay_note :: "int \<Rightarrow> event" where
  "relay_note t =
     \<lparr>ID = ''id-of-pub-of-k-at-'' @ fmt_d t, PubKey = ''pub-of-k'', CreatedAt = t, Kind = 1,
      Tags = [], Content = ''hello'', Sig = ''sig-by-k''\<rparr>"

definition post_hello :: request where
  "post_hello = \<lparr>Method = ''POST'', FormValue_content = ''hello''\<rparr>"


section \<open>Properties of the admission checks\<close>

lemma kinds_loop_member:
  "Kind ev \<in> set ks \<Longrightarrow> kinds_loop ks ev = (False, '''')"
  by (induction ks) auto

lemma kinds_loop_not_member:
  "Kind ev \<notin> set ks \<Longrightarrow>
     kinds_loop ks ev = (True, ''event kind '' @ fmt_d (Kind ev) @ '' is not supported'')"
  by (induction ks) auto

text \<open>The decimal text determines the number: reading the digits back gives it,
  digits are never a minus sign, so two kinds with the same reason are the same
  kind.\<close>

lemma digit_cases:
  assumes "d < (10::nat)"
  shows "d \<in> {0, 1, 2, 3, 4, 5, 6, 7, 8, 9}"
  using assms by auto

lemma digit_value_digit_char: "d < 10 \<Longrightarrow> digit_value (digit_char d) = d"
  using digit_cases [of d] by (auto simp: digit_value_def digit_char_def)

lemma isDigit_digit_char: "d < 10 \<Longrightarrow> isDigit (digit_char d)"
  using digit_cases [of d] by (auto simp: isDigit_def digit_char_def)

lemma digits_value_snoc: "digits_value n (s @ [ch]) = digits_value n s * 10 + digit_value ch"
  by (induction s arbitrary: n) simp_all

lemma digits_value_fmt_nat: "digits_value 0 (fmt_nat n) = n"
proof (induction n rule: fmt_nat.induct)
  case (1 n)
  show ?case
  proof (cases "n < 10")
    case True
    then show ?thesis by (subst fmt_nat.simps) (simp add: digit_value_digit_char)
  next
    case False
    with 1 show ?thesis
      by (subst fmt_nat.simps) (simp add: digits_value_snoc digit_value_digit_char)
  qed
qed

lemma fmt_nat_digits: "list_all isDigit (fmt_nat n)"
proof (induction n rule: fmt_nat.induct)
  case (1 n)
  show ?case
  proof (cases "n < 10")
    case True
    then show ?thesis by (subst fmt_nat.simps) (simp add: isDigit_digit_char)
  next
    case False
    with 1 show ?thesis by (subst fmt_nat.simps) (simp add: isDigit_digit_char)
  qed
qed

lemma fmt_nat_inj: "fmt_nat a = fmt_nat b \<Longrightarrow> a = b"
  by (metis digits_value_fmt_nat)

lemma fmt_nat_no_minus: "fmt_nat n \<noteq> CHR ''-'' # s"
proof
  assume "fmt_nat n = CHR ''-'' # s"
  with fmt_nat_digits [of n] have "isDigit CHR ''-''" by simp
  then show False by (simp add: isDigit_def)
qed

lemma fmt_d_inj: "fmt_d a = fmt_d b \<Longrightarrow> a = b"
proof -
  assume eq: "fmt_d a = fmt_d b"
  consider "a < 0" "b < 0" | "a < 0" "\<not> b < 0" | "\<not> a < 0" "b < 0" | "\<not> a < 0" "\<not> b < 0"
    by blast
  then show ?thesis
  proof cases
    case 1
    with eq have "nat (- a) = nat (- b)" by (simp add: fmt_d_def fmt_nat_inj)
    with 1 show ?thesis by simp
  next
    case 2
    with eq fmt_nat_no_minus [of "nat b" "fmt_nat (nat (- a))"] show ?thesis
      by (simp add: fmt_d_def)
  next
    case 3
    with eq fmt_nat_no_minus [of "nat a" "fmt_nat (nat (- b))"] show ?thesis
      by (simp add: fmt_d_def)
  next
    case 4
    with eq have "nat a = nat b" by (simp add: fmt_d_def fmt_nat_inj)
    with 4 show ?thesis by simp
  qed
qed

lemma reason_names_kind:
  "''event kind '' @ fmt_d a @ '' is not supported''
     = ''event kind '' @ fmt_d b @ '' is not supported'' \<Longrightarrow> a = b"
  by (simp add: fmt_d_inj)

lemma fmt_d_9999: "fmt_d 9999 = ''9999''"
  by (simp add: fmt_d_def fmt_nat.simps digit_char_def)

text \<open>
  C3. If the pubkey allowlist is non-empty and the event's public key is not a
  member, the pubkey check rejects with the reason "pubkey not whitelisted"; if
  the allowlist is empty, the check never rejects, whatever the public key.
\<close>

theorem pubkey_allowlist_check:
  "(fmdom whitelist \<noteq> {||} \<and> PubKey ev |\<notin>| fmdom whitelist \<longrightarrow>
      createRejectNonWhitelistedPubkeys whitelist ev = (True, ''pubkey not whitelisted'')) \<and>
   (fmdom whitelist = {||} \<longrightarrow>
      createRejectNonWhitelistedPubkeys whitelist ev = (False, ''''))"
  by (auto simp: createRejectNonWhitelistedPubkeys_def index_bool_def fmdom_notD)

theorem pubkey_allowlist_check_witness:
  "createRejectNonWhitelistedPubkeys (fmupd ''abc'' True fmempty) (inbound ''xyz'' 0 1)
     = (True, ''pubkey not whitelisted'') \<and>
   createRejectNonWhitelistedPubkeys fmempty (inbound ''xyz'' 0 1) = (False, '''')"
  using pubkey_allowlist_check [of "fmupd ''abc'' True fmempty" "inbound ''xyz'' 0 1"]
        pubkey_allowlist_check [of fmempty "inbound ''xyz'' 0 1"]
  by (simp add: inbound_def)

text \<open>
  C4. For an event whose kind is not among the allowed kinds, the kind check
  rejects with a reason that names the kind in decimal; for an event whose kind
  is allowed, the check passes with an empty reason.
\<close>

theorem kind_allowlist_check:
  "(Kind ev \<notin> set allowedKinds \<longrightarrow>
      createRejectUnsupportedKinds allowedKinds ev =
        (True, ''event kind '' @ fmt_d (Kind ev) @ '' is not supported'')) \<and>
   (Kind ev \<in> set allowedKinds \<longrightarrow>
      createRejectUnsupportedKinds allowedKinds ev = (False, ''''))"
  by (simp add: createRejectUnsupportedKinds_def kinds_loop_member kinds_loop_not_member)

theorem kind_allowlist_check_witness:
  "createRejectUnsupportedKinds [1, 30023] (inbound ''xyz'' 0 9999)
     = (True, ''event kind 9999 is not supported'') \<and>
   createRejectUnsupportedKinds [1, 30023] (inbound ''xyz'' 0 1) = (False, '''')"
  using kind_allowlist_check [of "inbound ''xyz'' 0 9999" "[1, 30023]"]
        kind_allowlist_check [of "inbound ''xyz'' 0 1" "[1, 30023]"]
  by (simp add: inbound_def fmt_d_9999)

section \<open>Order of the admission chain\<close>

text \<open>
  C5. The chain holds the pubkey check before the kind check and stops at the
  first rejection: an event that fails both (public key absent from a non-empty
  allowlist, kind not allowed) is rejected with "pubkey not whitelisted", not
  with the reason of the kind check, which would reject it too.
\<close>

theorem pubkey_check_runs_first:
  assumes "fmdom (WhitelistedPubkeys config) \<noteq> {||}"
      and "PubKey ev |\<notin>| fmdom (WhitelistedPubkeys config)"
      and "Kind ev \<notin> set (AllowedKinds config)"
  shows "admit (RejectEvent config RejectEventsWithBase64Media EventIPRateLimiter) ev
           = (True, ''pubkey not whitelisted'') \<and>
         createRejectUnsupportedKinds (AllowedKinds config) ev
           = (True, ''event kind '' @ fmt_d (Kind ev) @ '' is not supported'') \<and>
         ''event kind '' @ fmt_d (Kind ev) @ '' is not supported'' \<noteq> ''pubkey not whitelisted''"
  using assms
  by (simp add: RejectEvent_def createRejectNonWhitelistedPubkeys_def index_bool_def fmdom_notD
        createRejectUnsupportedKinds_def kinds_loop_not_member)

theorem pubkey_check_runs_first_witness:
  "admit (RejectEvent (example_config (fmupd ''abc'' True fmempty) [1, 30023] [])
            no_objection no_objection) (inbound ''xyz'' 0 9999)
     = (True, ''pubkey not whitelisted'') \<and>
   createRejectUnsupportedKinds [1, 30023] (inbound ''xyz'' 0 9999)
     = (True, ''event kind 9999 is not supported'')"
  using pubkey_check_runs_first
          [of "example_config (fmupd ''abc'' True fmempty) [1, 30023] []" "inbound ''xyz'' 0 9999"
              no_objection no_objection]
  by (simp add: example_config_def inbound_def fmt_d_9999)

section \<open>The mixed event\<close>

lemma Sign_fields:
  "Sign X evt sk = Inr s \<Longrightarrow>
     Content s = Content evt \<and> Kind s = Kind evt \<and> Tags s = Tags evt \<and>
     CreatedAt s = CreatedAt evt \<and> derive_pubkey X sk = Inr (PubKey s)"
  by (auto simp: Sign_def Let_def split: sum.splits)

lemma mixedEvent_forgets:
  "mixedEvent now (ev\<lparr>ID := i, PubKey := p, CreatedAt := c, Sig := s\<rparr>) = mixedEvent now ev"
  by (simp add: mixedEvent_def)

text \<open>With a well-formed private key, \<open>mixAndStoreEvent\<close> reads the clock, makes
  the mix, and hands it to the store; what follows depends on the answer of the
  store.\<close>

lemma mixAndStoreEvent_run:
  assumes "derive_pubkey X privateKey = Inr pk"
  shows "\<exists>mixed res.
           mixAndStoreEvent X ev privateKey relays tr =
             (map_option ((@) ''failed to save mixed event: '') res,
              tr @ TimeNow (time_Now X tr) # SaveEvent mixed res #
                (case res of None \<Rightarrow> [BroadcastEvent mixed, GoRebroadcast mixed relays]
                           | Some err \<Rightarrow> [])) \<and>
           res = db_SaveEvent X (tr @ [TimeNow (time_Now X tr)]) mixed \<and>
           mixed = \<lparr>ID = canonical_id X (pk, time_Now X tr, Kind ev, Tags ev, Content ev),
                    PubKey = pk, CreatedAt = time_Now X tr, Kind = Kind ev, Tags = Tags ev,
                    Content = Content ev,
                    Sig = signature X privateKey
                            (pk, time_Now X tr, Kind ev, Tags ev, Content ev)\<rparr>"
  using assms
  by (auto simp: mixAndStoreEvent_def Sign_def mixedEvent_def canonical_form_def Let_def
        split: option.splits)

lemma example_key: "derive_pubkey example_world ''k'' = Inr ''pub-of-k''"
  by (simp add: example_world_def)

lemma example_clock: "time_Now example_world [] = 100"
  by (simp add: example_world_def)

lemma example_mix:
  "mixAndStoreEvent example_world (inbound ''xyz'' t 1) ''k'' rs [] =
     (None, [TimeNow 100, SaveEvent (mixed_hello 100) None, BroadcastEvent (mixed_hello 100),
             GoRebroadcast (mixed_hello 100) rs])"
  by (simp add: mixAndStoreEvent_def example_world_def inbound_def mixedEvent_def Sign_def
        canonical_form_def mixed_hello_def)

text \<open>
  C1. For a relay whose private key is well formed (\<open>pk\<close> is the public key
  derived from it), \<open>mixAndStoreEvent\<close> reads the clock, makes one mixed event
  and hands it to the store. The mixed event has the content, kind and tags of
  the inbound event; its public key is \<open>pk\<close>; its creation time is the clock
  value read in the call; its id and signature are computed from these fields.
  The id, public key, signature and creation time of the inbound event are not
  used: changing them changes nothing of what \<open>mixAndStoreEvent\<close> does. This
  holds for every inbound event, admitted or not.
\<close>

theorem mixed_event_fields:
  assumes "derive_pubkey X privateKey = Inr pk"
  shows "(\<exists>mixed res.
            mixAndStoreEvent X ev privateKey relays tr =
              (map_option ((@) ''failed to save mixed event: '') res,
               tr @ TimeNow (time_Now X tr) # SaveEvent mixed res #
                 (case res of None \<Rightarrow> [BroadcastEvent mixed, GoRebroadcast mixed relays]
                            | Some err \<Rightarrow> [])) \<and>
            res = db_SaveEvent X (tr @ [TimeNow (time_Now X tr)]) mixed \<and>
            Content mixed = Content ev \<and> Kind mixed = Kind ev \<and> Tags mixed = Tags ev \<and>
            PubKey mixed = pk \<and> CreatedAt mixed = time_Now X tr \<and>
            ID mixed = canonical_id X (canonical_form mixed) \<and>
            Sig mixed = signature X privateKey (canonical_form mixed)) \<and>
         mixAndStoreEvent X (ev\<lparr>ID := i, PubKey := p, CreatedAt := c, Sig := s\<rparr>)
             privateKey relays tr
           = mixAndStoreEvent X ev privateKey relays tr"
proof -
  obtain mixed res where run:
      "mixAndStoreEvent X ev privateKey relays tr =
             (map_option ((@) ''failed to save mixed event: '') res,
              tr @ TimeNow (time_Now X tr) # SaveEvent mixed res #
                (case res of None \<Rightarrow> [BroadcastEvent mixed, GoRebroadcast mixed relays]
                           | Some err \<Rightarrow> []))"
      "res = db_SaveEvent X (tr @ [TimeNow (time_Now X tr)]) mixed"
    and m: "mixed = \<lparr>ID = canonical_id X (pk, time_Now X tr, Kind ev, Tags ev, Content ev),
                    PubKey = pk, CreatedAt = time_Now X tr, Kind = Kind ev, Tags = Tags ev,
                    Content = Content ev,
                    Sig = signature X privateKey
                            (pk, time_Now X tr, Kind ev, Tags ev, Content ev)\<rparr>"
    using mixAndStoreEvent_run [OF assms, of ev relays tr] by blast
  have fields: "Content mixed = Content ev \<and> Kind mixed = Kind ev \<and> Tags mixed = Tags ev \<and>
            PubKey mixed = pk \<and> CreatedAt mixed = time_Now X tr \<and>
            ID mixed = canonical_id X (canonical_form mixed) \<and>
            Sig mixed = signature X privateKey (canonical_form mixed)"
    by (simp add: m canonical_form_def)
  have "mixAndStoreEvent X (ev\<lparr>ID := i, PubKey := p, CreatedAt := c, Sig := s\<rparr>)
             privateKey relays tr
           = mixAndStoreEvent X ev privateKey relays tr"
    by (simp add: mixAndStoreEvent_def mixedEvent_forgets)
  with run fields show ?thesis by blast
qed

theorem mixed_event_fields_witness:
  "\<exists>mixed res.
      mixAndStoreEvent example_world (inbound ''xyz'' 50 1) ''k'' [''relayB''] [] =
        (map_option ((@) ''failed to save mixed event: '') res,
         [TimeNow 100, SaveEvent mixed res] @
           (case res of None \<Rightarrow> [BroadcastEvent mixed, GoRebroadcast mixed [''relayB'']]
                      | Some err \<Rightarrow> [])) \<and>
      Content mixed = ''hello'' \<and> Kind mixed = 1 \<and> Tags mixed = [[''t'', ''nostr'']] \<and>
      PubKey mixed = ''pub-of-k'' \<and> CreatedAt mixed = 100"
proof -
  obtain mixed res where run:
      "mixAndStoreEvent example_world (inbound ''xyz'' 50 1) ''k'' [''relayB''] [] =
         (map_option ((@) ''failed to save mixed event: '') res,
          [] @ TimeNow (time_Now example_world []) # SaveEvent mixed res #
            (case res of None \<Rightarrow> [BroadcastEvent mixed, GoRebroadcast mixed [''relayB'']]
                       | Some err \<Rightarrow> []))"
    and fields: "Content mixed = Content (inbound ''xyz'' 50 1)"
      "Kind mixed = Kind (inbound ''xyz'' 50 1)" "Tags mixed = Tags (inbound ''xyz'' 50 1)"
      "PubKey mixed = ''pub-of-k''" "CreatedAt mixed = time_Now example_world []"
    using mixed_event_fields [OF example_key, of "inbound ''xyz'' 50 1" "[''relayB'']" "[]"]
    by blast
  show ?thesis
    by (rule exI [of _ mixed], rule exI [of _ res])
       (use run fields in \<open>simp add: example_clock inbound_def\<close>)
qed

text \<open>
  C6, as stated: the creation time of the mixed event is at least that of the
  inbound event. No check of the chain looks at the creation time, so an
  admitted event may carry a creation time ahead of the relay's clock: at clock
  value 100, the inbound event with creation time 200 passes both checks and its
  mix is stamped 100.
\<close>

theorem mixed_created_at_counterexample:
  "createRejectNonWhitelistedPubkeys fmempty (inbound ''xyz'' 200 1) = (False, '''') \<and>
   createRejectUnsupportedKinds [1, 30023] (inbound ''xyz'' 200 1) = (False, '''') \<and>
   mixAndStoreEvent example_world (inbound ''xyz'' 200 1) ''k'' [] [] =
     (None, [TimeNow 100, SaveEvent (mixed_hello 100) None, BroadcastEvent (mixed_hello 100),
             GoRebroadcast (mixed_hello 100) []]) \<and>
   \<not> CreatedAt (mixed_hello 100) \<ge> CreatedAt (inbound ''xyz'' 200 1)"
  by (simp add: example_mix)
     (simp add: createRejectNonWhitelistedPubkeys_def createRejectUnsupportedKinds_def
        inbound_def mixed_hello_def)

text \<open>
  C6, amended. For a relay whose private key is well formed, \<open>mixAndStoreEvent\<close>
  makes a mixed event whose creation time is the clock value read in the call,
  whatever the creation time of the inbound event: it is at least the inbound
  creation time when the inbound creation time is not ahead of that clock value,
  and smaller when it is ahead.
\<close>

theorem mixed_created_at:
  assumes "derive_pubkey X privateKey = Inr pk"
  shows "(\<exists>mixed res.
            mixAndStoreEvent X ev privateKey relays tr =
              (map_option ((@) ''failed to save mixed event: '') res,
               tr @ TimeNow (time_Now X tr) # SaveEvent mixed res #
                 (case res of None \<Rightarrow> [BroadcastEvent mixed, GoRebroadcast mixed relays]
                            | Some err \<Rightarrow> [])) \<and>
            CreatedAt mixed = time_Now X tr \<and>
            (CreatedAt ev \<le> time_Now X tr \<longrightarrow> CreatedAt ev \<le> CreatedAt mixed) \<and>
            (time_Now X tr < CreatedAt ev \<longrightarrow> CreatedAt mixed < CreatedAt ev)) \<and>
         mixAndStoreEvent X (ev\<lparr>CreatedAt := c\<rparr>) privateKey relays tr
           = mixAndStoreEvent X ev privateKey relays tr"
proof -
  obtain mixed res where run:
      "mixAndStoreEvent X ev privateKey relays tr =
             (map_option ((@) ''failed to save mixed event: '') res,
              tr @ TimeNow (time_Now X tr) # SaveEvent mixed res #
                (case res of None \<Rightarrow> [BroadcastEvent mixed, GoRebroadcast mixed relays]
                           | Some err \<Rightarrow> []))"
    and m: "mixed = \<lparr>ID = canonical_id X (pk, time_Now X tr, Kind ev, Tags ev, Content ev),
                    PubKey = pk, CreatedAt = time_Now X tr, Kind = Kind ev, Tags = Tags ev,
                    Content = Content ev,
                    Sig = signature X privateKey
                            (pk, time_Now X tr, Kind ev, Tags ev, Content ev)\<rparr>"
    using mixAndStoreEvent_run [OF assms, of ev relays tr] by blast
  have "CreatedAt mixed = time_Now X tr" by (simp add: m)
  moreover have "mixAndStoreEvent X (ev\<lparr>CreatedAt := c\<rparr>) privateKey relays tr
           = mixAndStoreEvent X ev privateKey relays tr"
    by (simp add: mixAndStoreEvent_def mixedEvent_def)
  ultimately show ?thesis using run by auto
qed

theorem mixed_created_at_witness:
  "(\<exists>mixed res.
      mixAndStoreEvent example_world (inbound ''xyz'' 50 1) ''k'' [] [] =
        (map_option ((@) ''failed to save mixed event: '') res,
         [TimeNow 100, SaveEvent mixed res] @
           (case res of None \<Rightarrow> [BroadcastEvent mixed, GoRebroadcast mixed []]
                      | Some err \<Rightarrow> [])) \<and>
      CreatedAt mixed = 100 \<and> CreatedAt (inbound ''xyz'' 50 1) \<le> CreatedAt mixed) \<and>
   (\<exists>mixed res.
      mixAndStoreEvent example_world (inbound ''xyz'' 200 1) ''k'' [] [] =
        (map_option ((@) ''failed to save mixed event: '') res,
         [TimeNow 100, SaveEvent mixed res] @
           (case res of None \<Rightarrow> [BroadcastEvent mixed, GoRebroadcast mixed []]
                      | Some err \<Rightarrow> [])) \<and>
      CreatedAt mixed = 100 \<and> CreatedAt mixed < CreatedAt (inbound ''xyz'' 200 1))"
proof -
  have early: "CreatedAt (inbound ''xyz'' 50 1) \<le> time_Now example_world []"
    and late: "time_Now example_world [] < CreatedAt (inbound ''xyz'' 200 1)"
    by (simp_all add: example_clock inbound_def)
  obtain mixed res where a:
      "mixAndStoreEvent example_world (inbound ''xyz'' 50 1) ''k'' [] [] =
         (map_option ((@) ''failed to save mixed event: '') res,
          [] @ TimeNow (time_Now example_world []) # SaveEvent mixed res #
            (case res of None \<Rightarrow> [BroadcastEvent mixed, GoRebroadcast mixed []]
                       | Some err \<Rightarrow> []))"
      "CreatedAt mixed = time_Now example_world []"
      "CreatedAt (inbound ''xyz'' 50 1) \<le> CreatedAt mixed"
    using mixed_created_at [OF example_key, of "inbound ''xyz'' 50 1" "[]" "[]"] early
    by blast
  obtain mixed' res' where b:
      "mixAndStoreEvent example_world (inbound ''xyz'' 200 1) ''k'' [] [] =
         (map_option ((@) ''failed to save mixed event: '') res',
          [] @ TimeNow (time_Now example_world []) # SaveEvent mixed' res' #
            (case res' of None \<Rightarrow> [BroadcastEvent mixed', GoRebroadcast mixed' []]
                        | Some err \<Rightarrow> []))"
      "CreatedAt mixed' = time_Now example_world []"
      "CreatedAt mixed' < CreatedAt (inbound ''xyz'' 200 1)"
    using mixed_created_at [OF example_key, of "inbound ''xyz'' 200 1" "[]" "[]"] late
    by blast
  have "\<exists>mixed res.
      mixAndStoreEvent example_world (inbound ''xyz'' 50 1) ''k'' [] [] =
        (map_option ((@) ''failed to save mixed event: '') res,
         [TimeNow 100, SaveEvent mixed res] @
           (case res of None \<Rightarrow> [BroadcastEvent mixed, GoRebroadcast mixed []]
                      | Some err \<Rightarrow> [])) \<and>
      CreatedAt mixed = 100 \<and> CreatedAt (inbound ''xyz'' 50 1) \<le> CreatedAt mixed"
    by (rule exI [of _ mixed], rule exI [of _ res]) (use a in \<open>simp add: example_clock\<close>)
  moreover have "\<exists>mixed res.
      mixAndStoreEvent example_world (inbound ''xyz'' 200 1) ''k'' [] [] =
        (map_option ((@) ''failed to save mixed event: '') res,
         [TimeNow 100, SaveEvent mixed res] @
           (case res of None \<Rightarrow> [BroadcastEvent mixed, GoRebroadcast mixed []]
                      | Some err \<Rightarrow> [])) \<and>
      CreatedAt mixed = 100 \<and> CreatedAt mixed < CreatedAt (inbound ''xyz'' 200 1)"
    by (rule exI [of _ mixed'], rule exI [of _ res']) (use b in \<open>simp add: example_clock\<close>)
  ultimately show ?thesis by (rule conjI)
qed

section \<open>Failure of the store\<close>

text \<open>
  C7. If the store returns an error for the signed mixed event,
  \<open>mixAndStoreEvent\<close> returns that error (wrapped) to its caller, and the save
  is the last thing it does: the event is not broadcast to local subscribers,
  no rebroadcast is started, and the save is not tried again.
\<close>

theorem save_failure_aborts:
  assumes "Sign X (mixedEvent (time_Now X tr) ev) privateKey = Inr mixed"
      and "db_SaveEvent X (tr @ [TimeNow (time_Now X tr)]) mixed = Some err"
  shows "mixAndStoreEvent X ev privateKey relays tr =
           (Some (''failed to save mixed event: '' @ err),
            tr @ [TimeNow (time_Now X tr), SaveEvent mixed (Some err)])"
  using assms by (simp add: mixAndStoreEvent_def Let_def)

theorem save_failure_aborts_witness:
  "mixAndStoreEvent example_world ((inbound ''xyz'' 0 1)\<lparr>Content := ''full''\<rparr>) ''k''
       [''relayB''] [] =
     (Some ''failed to save mixed event: disk full'',
      [TimeNow 100, SaveEvent ((mixed_hello 100)\<lparr>Content := ''full''\<rparr>) (Some ''disk full'')])"
  using save_failure_aborts
          [of example_world "[]" "(inbound ''xyz'' 0 1)\<lparr>Content := ''full''\<rparr>" "''k''"
              "(mixed_hello 100)\<lparr>Content := ''full''\<rparr>" "''disk full''" "[''relayB'']"]
  by (simp add: example_world_def inbound_def mixedEvent_def Sign_def canonical_form_def
        mixed_hello_def)

section \<open>Rebroadcast to the peers\<close>

lemmas trace_defs = peers_attempted_def peers_failed_def peers_succeeded_def failure_texts_def

lemma failure_text_references_peer:
  "list_all2 (\<lambda>text url. sublist url text) (failure_text a) (failed a)"
  by (cases a rule: failed.cases) (simp_all del: append.simps)

lemma texts_reference_peers:
  "list_all2 (\<lambda>text url. sublist url text) (failure_texts tr) (peers_failed tr)"
proof (induction tr)
  case Nil
  show ?case by (simp add: trace_defs)
next
  case (Cons a tr)
  with failure_text_references_peer [of a] show ?case
    by (simp add: trace_defs list_all2_appendI)
qed

lemma length_failure_texts: "length (failure_texts tr) = length (peers_failed tr)"
  using texts_reference_peers [of tr] by (rule list_all2_lengthD)

lemma example_rebroadcast:
  "rebroadcastEvent example_world e [''relayA'', ''relayB''] [] =
     ([''failed to connect to relay relayA: unreachable''],
      [RelayConnect ''relayA'' (Some ''unreachable''), RelayConnect ''relayB'' None,
       Publish ''relayB'' e None, Close ''relayB''])"
  by (simp add: rebroadcastEvent_def publish_to_def example_world_def)

text \<open>The loop against the peers: what it adds to the trace makes one attempt
  at each peer, for the event it was given, and records what the peers
  answered; the errors it adds are the failure texts of that stretch.\<close>

lemma rebroadcast_loop_run:
  "\<exists>new. rebroadcast_loop X ev relays errors tr = (errors @ failure_texts new, tr @ new) \<and>
         one_attempt_each ev relays new \<and> answered_by X tr new"
proof (induction relays arbitrary: errors tr)
  case Nil
  show ?case by (simp add: failure_texts_def)
next
  case (Cons url relays)
  show ?case
  proof (cases "nostr_RelayConnect X tr url")
    case (Some err)
    let ?seg = "[RelayConnect url (Some err)]"
    obtain new where n:
        "rebroadcast_loop X ev relays (errors @ failure_texts ?seg) (tr @ ?seg)
           = ((errors @ failure_texts ?seg) @ failure_texts new, (tr @ ?seg) @ new)"
        "one_attempt_each ev relays new" "answered_by X (tr @ ?seg) new"
      using Cons.IH by blast
    have "rebroadcast_loop X ev (url # relays) errors tr
            = (errors @ failure_texts (?seg @ new), tr @ (?seg @ new))"
      using n(1) by (simp add: publish_to_def Some failure_texts_def)
    moreover have "one_attempt_each ev (url # relays) (?seg @ new)"
      using n(2) by simp
    moreover have "answered_by X tr (?seg @ new)"
      using n(3) by (simp add: Some)
    ultimately show ?thesis by blast
  next
    case None
    let ?r = "relay_Publish X (tr @ [RelayConnect url None]) url ev"
    let ?seg = "[RelayConnect url None, Publish url ev ?r, Close url]"
    obtain new where n:
        "rebroadcast_loop X ev relays (errors @ failure_texts ?seg) (tr @ ?seg)
           = ((errors @ failure_texts ?seg) @ failure_texts new, (tr @ ?seg) @ new)"
        "one_attempt_each ev relays new" "answered_by X (tr @ ?seg) new"
      using Cons.IH by blast
    have "rebroadcast_loop X ev (url # relays) errors tr
            = (errors @ failure_texts (?seg @ new), tr @ (?seg @ new))"
      using n(1) by (cases ?r) (simp_all add: publish_to_def None failure_texts_def)
    moreover have "one_attempt_each ev (url # relays) (?seg @ new)"
      using n(2) by simp
    moreover have "answered_by X tr (?seg @ new)"
      using n(3) by (simp add: None)
    ultimately show ?thesis by blast
  qed
qed

text \<open>What one attempt at each peer says about the peers and the events.\<close>

lemma one_attempt_each_peers:
  "one_attempt_each ev relays new \<Longrightarrow>
     peers_attempted new = relays \<and>
     length (peers_failed new) + length (peers_succeeded new) = length relays \<and>
     subseq (peers_failed new) relays \<and> subseq (peers_succeeded new) relays \<and>
     list_all (\<lambda>a. set (events_of a) \<subseteq> {ev}) new"
proof (induction ev relays new rule: one_attempt_each.induct)
  case (1 ev new)
  then show ?case by (simp add: trace_defs)
next
  case (2 ev url relays u err new)
  then show ?case by (auto simp: trace_defs)
next
  case (3 ev url relays u u' e r u'' new)
  then show ?case by (cases r) (auto simp: trace_defs)
qed simp_all

text \<open>
  C2. \<open>rebroadcastEvent\<close> only adds to the trace. What it adds makes exactly one
  attempt at every peer of the list, in the order of the list, whatever failed
  before: a connection, and after a successful connection the publication of
  the given event and the closing of the connection. Every recorded result is
  what the peer answered at that point. The returned list is the failure texts
  in the order of the attempts, one per failed peer, each containing the address
  of its peer; the failed peers are a subsequence of the peer list; every peer
  either failed or was published to; and the returned list is empty exactly when
  every peer was published to.
\<close>

theorem rebroadcast_attempts_every_peer:
  assumes "rebroadcastEvent X ev relays tr = (errors, tr')"
  shows "take (length tr) tr' = tr \<and>
         one_attempt_each ev relays (drop (length tr) tr') \<and>
         answered_by X tr (drop (length tr) tr') \<and>
         peers_attempted (drop (length tr) tr') = relays \<and>
         errors = failure_texts (drop (length tr) tr') \<and>
         length errors = length (peers_failed (drop (length tr) tr')) \<and>
         list_all2 (\<lambda>text url. sublist url text) errors (peers_failed (drop (length tr) tr')) \<and>
         subseq (peers_failed (drop (length tr) tr')) relays \<and>
         length errors + length (peers_succeeded (drop (length tr) tr')) = length relays \<and>
         (errors = []) = (peers_succeeded (drop (length tr) tr') = relays)"
proof -
  obtain new where n: "rebroadcast_loop X ev relays [] tr = ([] @ failure_texts new, tr @ new)"
      "one_attempt_each ev relays new" "answered_by X tr new"
    using rebroadcast_loop_run [of X ev relays "[]" tr] by blast
  have p: "peers_attempted new = relays"
      "length (peers_failed new) + length (peers_succeeded new) = length relays"
      "subseq (peers_failed new) relays" "subseq (peers_succeeded new) relays"
    using one_attempt_each_peers [OF n(2)] by simp_all
  from n(1) assms have e: "errors = failure_texts new" and t: "tr' = tr @ new"
    by (simp_all add: rebroadcastEvent_def)
  have d: "drop (length tr) tr' = new" and k: "take (length tr) tr' = tr"
    using t by simp_all
  have len: "length errors = length (peers_failed new)"
    using e by (simp add: length_failure_texts)
  have "(errors = []) = (peers_succeeded new = relays)"
  proof
    assume "errors = []"
    then have "length (peers_succeeded new) = length relays" using len p(2) by simp
    then show "peers_succeeded new = relays" using p(4) by (simp add: subseq_same_length)
  next
    assume "peers_succeeded new = relays"
    then show "errors = []" using len p(2) by simp
  qed
  then show ?thesis
    using n(2,3) p(1,2,3) e len texts_reference_peers [of new] by (simp add: d k)
qed

theorem rebroadcast_attempts_every_peer_witness:
  "rebroadcastEvent example_world (mixed_hello 100) [''relayA'', ''relayB''] [] =
     ([''failed to connect to relay relayA: unreachable''],
      [RelayConnect ''relayA'' (Some ''unreachable''), RelayConnect ''relayB'' None,
       Publish ''relayB'' (mixed_hello 100) None, Close ''relayB'']) \<and>
   one_attempt_each (mixed_hello 100) [''relayA'', ''relayB'']
     [RelayConnect ''relayA'' (Some ''unreachable''), RelayConnect ''relayB'' None,
       Publish ''relayB'' (mixed_hello 100) None, Close ''relayB''] \<and>
   answered_by example_world []
     [RelayConnect ''relayA'' (Some ''unreachable''), RelayConnect ''relayB'' None,
       Publish ''relayB'' (mixed_hello 100) None, Close ''relayB''] \<and>
   peers_attempted [RelayConnect ''relayA'' (Some ''unreachable''), RelayConnect ''relayB'' None,
       Publish ''relayB'' (mixed_hello 100) None, Close ''relayB''] = [''relayA'', ''relayB''] \<and>
   [''failed to connect to relay relayA: unreachable''] =
     failure_texts [RelayConnect ''relayA'' (Some ''unreachable''),
       RelayConnect ''relayB'' None, Publish ''relayB'' (mixed_hello 100) None, Close ''relayB''] \<and>
   subseq (peers_failed [RelayConnect ''relayA'' (Some ''unreachable''),
       RelayConnect ''relayB'' None, Publish ''relayB'' (mixed_hello 100) None, Close ''relayB''])
     [''relayA'', ''relayB'']"
proof -
  note run = example_rebroadcast [of "mixed_hello 100"]
  from rebroadcast_attempts_every_peer [OF run] have
    "one_attempt_each (mixed_hello 100) [''relayA'', ''relayB'']
       [RelayConnect ''relayA'' (Some ''unreachable''), RelayConnect ''relayB'' None,
        Publish ''relayB'' (mixed_hello 100) None, Close ''relayB'']"
    "answered_by example_world []
       [RelayConnect ''relayA'' (Some ''unreachable''), RelayConnect ''relayB'' None,
        Publish ''relayB'' (mixed_hello 100) None, Close ''relayB'']"
    "peers_attempted [RelayConnect ''relayA'' (Some ''unreachable''), RelayConnect ''relayB'' None,
        Publish ''relayB'' (mixed_hello 100) None, Close ''relayB''] = [''relayA'', ''relayB'']"
    "[''failed to connect to relay relayA: unreachable''] =
       failure_texts [RelayConnect ''relayA'' (Some ''unreachable''),
         RelayConnect ''relayB'' None, Publish ''relayB'' (mixed_hello 100) None, Close ''relayB'']"
    "subseq (peers_failed [RelayConnect ''relayA'' (Some ''unreachable''),
         RelayConnect ''relayB'' None, Publish ''relayB'' (mixed_hello 100) None, Close ''relayB''])
       [''relayA'', ''relayB'']"
    by (simp_all only: list.size drop_0)
  with run show ?thesis by (intro conjI)
qed

section \<open>A configuration without peers\<close>







section \<open>The HTTP submission path\<close>

lemma fmt_d_1: "fmt_d 1 = ''1''"
  by (simp add: fmt_d_def fmt_nat.simps digit_char_def)

lemma example_submit:
  "createSubmitNoteHandler example_world (example_config fmempty kinds [''relayB'']) post_hello [] =
     (\<lparr>StatusCode = 200, ContentType = Some ''text/html'', Body = success_response []\<rparr>,
      [TimeNow 100, TimeNow 101, SaveEvent (relay_note 101) None, BroadcastEvent (relay_note 101),
       GoRebroadcast (relay_note 101) [''relayB''],
       RelayConnect ''relayB'' None, Publish ''relayB'' (relay_note 100) None, Close ''relayB''])"
  by (simp add: createSubmitNoteHandler_def example_config_def post_hello_def example_world_def
        submitted_event_def Sign_def canonical_form_def mixAndStoreEvent_def mixedEvent_def
        rebroadcastEvent_def publish_to_def relay_note_def)

text \<open>
  C8. The claim: on the HTTP submission path the event the handler builds passes
  through the admission chain, pubkey and kind checks included, before it is
  mixed, signed and stored. The handler has its own gate for the pubkey
  allowlist and then calls \<open>mixAndStoreEvent\<close> itself; it never consults the
  kind check. With kind 1 not among the allowed kinds, the kind check and the
  chain both reject the event the handler builds, and the handler stores and
  broadcasts its mix all the same and answers with the success message.
\<close>

theorem submit_stores_disallowed_kind:
  "createRejectUnsupportedKinds (AllowedKinds (example_config fmempty [30023] [''relayB'']))
       (relay_note 100) = (True, ''event kind 1 is not supported'') \<and>
   admit (RejectEvent (example_config fmempty [30023] [''relayB'']) no_objection no_objection)
       (relay_note 100) = (True, ''event kind 1 is not supported'') \<and>
   createSubmitNoteHandler example_world (example_config fmempty [30023] [''relayB'']) post_hello [] =
     (\<lparr>StatusCode = 200, ContentType = Some ''text/html'', Body = success_response []\<rparr>,
      [TimeNow 100, TimeNow 101, SaveEvent (relay_note 101) None, BroadcastEvent (relay_note 101),
       GoRebroadcast (relay_note 101) [''relayB''],
       RelayConnect ''relayB'' None, Publish ''relayB'' (relay_note 100) None, Close ''relayB''])"
  by (simp add: example_submit)
     (simp add: example_config_def RejectEvent_def createRejectUnsupportedKinds_def
        createRejectNonWhitelistedPubkeys_def relay_note_def fmt_d_1)

text \<open>The example is not special: the handler never reads the allowed kinds.\<close>

lemma submit_never_reads_allowed_kinds:
  \<open>createSubmitNoteHandler X (config\<lparr>AllowedKinds := kinds\<rparr>) r tr =
     createSubmitNoteHandler X config r tr\<close>
  by (simp add: createSubmitNoteHandler_def Let_def
        cong: sum.case_cong prod.case_cong option.case_cong)

text \<open>The part of the claim about the response: the success message is followed
  by every failure text the blocking rebroadcast returned.\<close>

lemma success_response_includes:
  \<open>list_all (\<lambda>err. sublist err (success_response errors)) errors\<close>
proof -
  have \<open>sublist err (success_response errors)\<close> if mem: \<open>err \<in> set errors\<close> for err
  proof -
    obtain as bs where ab: \<open>errors = as @ err # bs\<close>
      using split_list [OF mem] by blast
    define item :: \<open>string \<Rightarrow> string\<close>
      where \<open>item = (\<lambda>err. ''<li class="warning">'' @ err @ ''</li>'')\<close>
    define ps where \<open>ps = ''<p class="success">Note submitted successfully!</p>'' @
        ''<p class="warning">Rebroadcast issues:</p><ul>'' @ concat (map item as) @
        ''<li class="warning">''\<close>
    define ss where \<open>ss = ''</li>'' @ concat (map item bs) @ ''</ul>''\<close>
    have \<open>success_response errors = ps @ err @ ss\<close>
      by (simp add: success_response_def ab ps_def ss_def item_def)
    then show ?thesis by (simp only: sublist_appendI)
  qed
  then show ?thesis by (simp add: list_all_iff)
qed

lemma submit_success_response:
  assumes \<open>Method r = ''POST''\<close>
      and \<open>fmdom (WhitelistedPubkeys config) = {||}\<close>
      and \<open>FormValue_content r \<noteq> ''''\<close>
      and \<open>t1 = time_Now X tr\<close>
      and \<open>t2 = time_Now X (tr @ [TimeNow t1])\<close>
      and \<open>Sign X (submitted_event t1 (FormValue_content r)) (RelayPrivateKey config) = Inr event\<close>
      and \<open>Sign X (mixedEvent t2 event) (RelayPrivateKey config) = Inr mixed\<close>
      and \<open>db_SaveEvent X (tr @ [TimeNow t1, TimeNow t2]) mixed = None\<close>
      and \<open>rebroadcastEvent X event (RebroadcastRelays config)
             (tr @ [TimeNow t1, TimeNow t2, SaveEvent mixed None, BroadcastEvent mixed,
                    GoRebroadcast mixed (RebroadcastRelays config)]) = (errors, tr')\<close>
  shows \<open>createSubmitNoteHandler X config r tr =
           (\<lparr>StatusCode = 200, ContentType = Some ''text/html'',
             Body = success_response errors\<rparr>, tr') \<and>
         list_all (\<lambda>err. sublist err (success_response errors)) errors\<close>
  using assms
  by (simp add: createSubmitNoteHandler_def mixAndStoreEvent_def Let_def
        success_response_includes)

text \<open>On the submission path too, a failed save ends the request: the handler
  answers that the event could not be stored and does not rebroadcast.\<close>

lemma submit_save_failure:
  assumes \<open>Method r = ''POST''\<close>
      and \<open>fmdom (WhitelistedPubkeys config) = {||}\<close>
      and \<open>FormValue_content r \<noteq> ''''\<close>
      and \<open>Sign X (submitted_event (time_Now X tr) (FormValue_content r))
             (RelayPrivateKey config) = Inr event\<close>
      and \<open>mixAndStoreEvent X event (RelayPrivateKey config) (RebroadcastRelays config)
             (tr @ [TimeNow (time_Now X tr)]) = (Some err, tr')\<close>
  shows \<open>createSubmitNoteHandler X config r tr =
           (write_body ''<p class="error">Failed to store event</p>'', tr')\<close>
  using assms by (simp add: createSubmitNoteHandler_def Let_def)

section \<open>Which events leave the relay\<close>

text \<open>Every event that \<open>mixAndStoreEvent\<close> stores, broadcasts or hands to the
  rebroadcast goroutine is the signed mix.\<close>

lemma mixAndStoreEvent_emits_only_mix:
  assumes "e \<in> set (concat (map events_of
                  (drop (length tr) (snd (mixAndStoreEvent X ev sk relays tr)))))"
  shows "Sign X (mixedEvent (time_Now X tr) ev) sk = Inr e"
  using assms
  by (auto simp: mixAndStoreEvent_def Let_def split: sum.splits option.splits)

text \<open>
  C9. The claim: the mixed event is the only event ever stored, broadcast or
  rebroadcast, and the inbound event is never fanned out. The submission
  handler passes the event it built, not its mix, to the blocking
  \<open>rebroadcastEvent\<close>: with the clock at 100 when the event is built and at 101
  when it is mixed, the relay stores and broadcasts the mix stamped 101 and
  starts the rebroadcast of that mix, and then publishes the unmixed event
  stamped 100 to the peer.
\<close>

theorem submit_rebroadcasts_unmixed_event:
  "snd (createSubmitNoteHandler example_world (example_config fmempty [1, 30023] [''relayB''])
          post_hello []) =
     [TimeNow 100, TimeNow 101, SaveEvent (relay_note 101) None, BroadcastEvent (relay_note 101),
      GoRebroadcast (relay_note 101) [''relayB''],
      RelayConnect ''relayB'' None, Publish ''relayB'' (relay_note 100) None, Close ''relayB''] \<and>
   Sign example_world (submitted_event 100 ''hello'') ''k'' = Inr (relay_note 100) \<and>
   Sign example_world (mixedEvent 101 (relay_note 100)) ''k'' = Inr (relay_note 101) \<and>
   relay_note 100 \<noteq> relay_note 101"
  by (simp add: example_submit)
     (simp add: example_world_def submitted_event_def Sign_def canonical_form_def mixedEvent_def
        relay_note_def)


end
